theory Spec2Isabelle
  imports Main "HOL-Library.Word" "HOL-Library.Multiset"
begin

section \<open>Data model\<close>

text \<open>
  The issuance command of \<^verbatim>\<open>cmds.py\<close> is embedded as pure functions. Every exception
  the Python code can raise is a value of \<open>error\<close>, and every fallible step returns
  \<open>error + 'a\<close> with \<open>Inl\<close> for the raised exception.
\<close>

type_synonym byte = "8 word"
type_synonym bytes = "byte list"

text \<open>A CLVM program: a binary tree whose leaves (atoms) are byte strings and whose inner
  nodes are pairs (cons boxes); nil is the empty atom.\<close>

datatype program = Atom bytes | ConsBox program program

datatype error =
    NameError string          \<comment> \<open>a name that the module neither defines nor imports\<close>
  | IndexError                \<comment> \<open>\<^verbatim>\<open>[0]\<close> on an empty list\<close>
  | AttributeError            \<comment> \<open>a method call on \<^verbatim>\<open>None\<close>\<close>
  | CollaboratorError string  \<comment> \<open>an exception raised inside a library or service call\<close>

record coin =
  parent_coin_info :: bytes
  puzzle_hash :: bytes
  amount :: int

record coin_spend =
  coin :: coin
  puzzle_reveal :: program
  solution :: program

record 'sig spend_bundle =
  coin_spends :: "coin_spend list"
  aggregated_signature :: 'sig

record 'sig transaction_record =
  spend_bundle :: "'sig spend_bundle"

text \<open>The keyword and positional arguments of the \<^verbatim>\<open>SpendableCC(...)\<close> call of \<^verbatim>\<open>cli\<close>.\<close>

record spendable_cc =
  cc_coin :: coin
  limitations_program_hash :: bytes
  inner_puzzle :: program
  inner_solution :: program
  limitations_solution :: program
  limitations_program_reveal :: program

text \<open>The wallet client object: its one method used here, \<^verbatim>\<open>create_signed_transaction\<close>,
  applied to the puzzle hash and amount of the single requested output and to the fee.\<close>

type_synonym 'sig wallet_client = "bytes \<Rightarrow> int \<Rightarrow> int \<Rightarrow> error + 'sig transaction_record"

text \<open>
  The libraries and services the module imports are not part of the repository; the
  functions of the module take them as parameters. \<open>'sig\<close> is the type of \<^verbatim>\<open>G2Element\<close>.
  \<open>read_file\<close> is \<^verbatim>\<open>open(path, "r").read()\<close>; \<open>json_dumps\<close> is \<^verbatim>\<open>json.dumps\<close> applied to a
  spend bundle (it raises for an object it cannot serialise); \<open>load_config\<close> yields the
  host name and wallet port that \<^verbatim>\<open>get_client\<close> reads from the configuration.
\<close>

record 'sig collaborators =
  assemble :: "string \<Rightarrow> error + program"
  hexstr_to_bytes :: "string \<Rightarrow> error + bytes"
  Program_from_bytes :: "bytes \<Rightarrow> error + program"
  compile_clvm_text :: "string \<Rightarrow> string list \<Rightarrow> error + program"
  read_file :: "string \<Rightarrow> error + string"
  int_to_bytes :: "int \<Rightarrow> bytes"
  Program_curry :: "program \<Rightarrow> program list \<Rightarrow> program"
  get_tree_hash :: "program \<Rightarrow> bytes"
  CC_MOD :: program
  construct_cc_puzzle :: "program \<Rightarrow> bytes \<Rightarrow> program \<Rightarrow> program"
  decode_puzzle_hash :: "string \<Rightarrow> error + bytes"
  G2Element_from_bytes :: "bytes \<Rightarrow> error + 'sig"
  SpendBundle_from_bytes :: "bytes \<Rightarrow> error + 'sig spend_bundle"
  load_config :: "error + string \<times> nat"
  WalletRpcClient_create :: "string \<times> nat \<Rightarrow> error + 'sig wallet_client"
  additions :: "'sig spend_bundle \<Rightarrow> coin list"
  removals :: "'sig spend_bundle \<Rightarrow> coin list"
  coin_name :: "coin \<Rightarrow> bytes"
  unsigned_spend_bundle_for_spendable_ccs :: "program \<Rightarrow> spendable_cc list \<Rightarrow> error + 'sig spend_bundle"
  SpendBundle_bytes :: "'sig spend_bundle \<Rightarrow> bytes"
  json_dumps :: "'sig spend_bundle \<Rightarrow> error + string"

text \<open>Sequencing of fallible steps: the first exception ends the run.\<close>

definition bindE :: "error + 'a \<Rightarrow> ('a \<Rightarrow> error + 'b) \<Rightarrow> error + 'b" where
  "bindE m f = (case m of Inl e \<Rightarrow> Inl e | Inr x \<Rightarrow> f x)"

text \<open>\<^verbatim>\<open>list(...)[0]\<close>: the first element, \<^verbatim>\<open>IndexError\<close> on the empty list.\<close>

definition first :: "'a list \<Rightarrow> error + 'a" where
  "first xs = (case xs of [] \<Rightarrow> Inl IndexError | x # _ \<Rightarrow> Inr x)"

section \<open>The program resolver: \<^verbatim>\<open>parse_program\<close>\<close>

text \<open>
  \<^verbatim>\<open>re.compile(r"\(mod\s").search(filestring)\<close>: some position of the string starts with
  \<^verbatim>\<open>(mod\<close> followed by a whitespace character. A \<open>char\<close> stands for the code point of the
  same number; the whitespace class of \<^verbatim>\<open>\s\<close> below 256 is 9-13, 28-32, 133 and 160.
\<close>

definition isspace :: "char \<Rightarrow> bool" where
  "isspace c = (of_char c \<in> {9, 10, 11, 12, 13, 28, 29, 30, 31, 32, 133, 160 :: nat})"

fun match_mod :: "string \<Rightarrow> bool" where
  "match_mod (a # b # c # d # e # _) =
     (a = CHR ''('' \<and> b = CHR ''m'' \<and> c = CHR ''o'' \<and> d = CHR ''d'' \<and> isspace e)"
| "match_mod _ = False"

fun search_mod :: "string \<Rightarrow> bool" where
  "search_mod [] = False"
| "search_mod (c # cs) = (match_mod (c # cs) \<or> search_mod cs)"

text \<open>
  The argument of \<^verbatim>\<open>parse_program\<close> has type \<^verbatim>\<open>Union[str, Program]\<close>.
\<close>

datatype program_arg = Str string | Prog program

text \<open>
  The binding of the name \<^verbatim>\<open>append_include\<close> in the module's global scope. The module
  has no \<^verbatim>\<open>def\<close>, assignment or \<^verbatim>\<open>import\<close> of that name, and it is not a Python builtin,
  so the lookup finds nothing.
\<close>

definition append_include :: "(string list \<Rightarrow> string list) option" where
  "append_include = None"

text \<open>
  \<^verbatim>\<open>parse_program(program, include=[])\<close>. \<^verbatim>\<open>Program.to\<close> of an assembled or compiled
  program is that program. In the Chialisp branch Python evaluates the argument
  \<^verbatim>\<open>append_include(include)\<close> before \<^verbatim>\<open>compile_clvm_text\<close> is called, so an unbound name
  raises \<^verbatim>\<open>NameError\<close> there.
\<close>

definition parse_program :: "'sig collaborators \<Rightarrow> program_arg \<Rightarrow> string list \<Rightarrow> error + program" where
  "parse_program env program_in include_paths =
     (case program_in of
        Prog p \<Rightarrow> Inr p
      | Str s \<Rightarrow>
          if CHR ''('' \<in> set s then assemble env s
          else if CHR ''.'' \<notin> set s then bindE (hexstr_to_bytes env s) (Program_from_bytes env)
          else
            bindE (read_file env s) (\<lambda>filestring.
              if CHR ''('' \<in> set filestring then
                if search_mod filestring then
                  (case append_include of
                     None \<Rightarrow> Inl (NameError ''append_include'')
                   | Some f \<Rightarrow> compile_clvm_text env filestring (f include_paths))
                else assemble env filestring
              else bindE (hexstr_to_bytes env filestring) (Program_from_bytes env)))"

section \<open>Library operations on programs, signatures and bundles\<close>

text \<open>
  The Python values that \<^verbatim>\<open>cli\<close> hands to \<^verbatim>\<open>Program.to\<close>, and the conversion of the CLVM
  library: a 2-tuple becomes a pair, a list becomes a nil-terminated chain of pairs, an
  integer becomes the atom of its byte encoding, bytes become an atom, and a program is
  kept as it is.
\<close>

datatype py_value =
    Py_int int
  | Py_bytes bytes
  | Py_program program
  | Py_tuple py_value py_value
  | Py_list "py_value list"

definition clvm_list :: "program list \<Rightarrow> program" where
  "clvm_list ps = foldr ConsBox ps (Atom [])"

fun Program_to :: "(int \<Rightarrow> bytes) \<Rightarrow> py_value \<Rightarrow> program" where
  "Program_to itb (Py_int i) = Atom (itb i)"
| "Program_to itb (Py_bytes b) = Atom b"
| "Program_to itb (Py_program p) = p"
| "Program_to itb (Py_tuple a b) = ConsBox (Program_to itb a) (Program_to itb b)"
| "Program_to itb (Py_list vs) = clvm_list (map (Program_to itb) vs)"

text \<open>
  Modelled from the spec: the signature-scheme library (\<^verbatim>\<open>blspy\<close>) is not part of the
  repository. A signature is an element of a commutative group, written additively
  (the type class \<open>ab_group_add\<close>); \<^verbatim>\<open>G2Element()\<close> is the group zero.
\<close>

definition G2Element :: "'sig::ab_group_add" where
  "G2Element = 0"

text \<open>
  Modelled from the spec: \<^verbatim>\<open>AugSchemeMPL.aggregate\<close> of the same library is the
  group-add operator: it adds the listed signatures to the group zero, from left to
  right.
\<close>

definition AugSchemeMPL_aggregate :: "'sig::ab_group_add list \<Rightarrow> 'sig" where
  "AugSchemeMPL_aggregate sigs = foldl (+) G2Element sigs"

text \<open>
  Modelled from the spec: \<^verbatim>\<open>SpendBundle.aggregate\<close> of the ledger library is not part of
  the repository. Bundle aggregation concatenates the coin-spend sequences of the
  operands in order and group-adds their signatures.
\<close>

definition SpendBundle_aggregate :: "'sig::ab_group_add spend_bundle list \<Rightarrow> 'sig spend_bundle" where
  "SpendBundle_aggregate bundles =
     \<lparr>coin_spends = concat (map coin_spends bundles),
      aggregated_signature = AugSchemeMPL_aggregate (map aggregated_signature bundles)\<rparr>"

text \<open>\<^verbatim>\<open>bytes.hex()\<close>: two lower-case hexadecimal digits for each byte.\<close>

definition hexdigit :: "nat \<Rightarrow> char" where
  "hexdigit n = ''0123456789abcdef'' ! n"

definition hex :: "bytes \<Rightarrow> string" where
  "hex bs = concat (map (\<lambda>b. [hexdigit (unat b div 16), hexdigit (unat b mod 16)]) bs)"

section \<open>The wallet call: \<^verbatim>\<open>get_client\<close> and \<^verbatim>\<open>get_signed_tx\<close>\<close>

text \<open>
  \<^verbatim>\<open>get_client\<close> returns \<^verbatim>\<open>None\<close> when loading the configuration or creating the client
  raises. \<^verbatim>\<open>get_signed_tx\<close> then calls a method of \<^verbatim>\<open>None\<close>, which raises
  \<^verbatim>\<open>AttributeError\<close> (as does the \<^verbatim>\<open>finally\<close> block).
\<close>

definition get_client :: "'sig collaborators \<Rightarrow> 'sig wallet_client option" where
  "get_client env =
     (case load_config env of
        Inl e \<Rightarrow> None
      | Inr config \<Rightarrow>
          (case WalletRpcClient_create env config of
             Inl e \<Rightarrow> None
           | Inr full_node_client \<Rightarrow> Some full_node_client))"

definition get_signed_tx :: "'sig collaborators \<Rightarrow> bytes \<Rightarrow> int \<Rightarrow> int \<Rightarrow> error + 'sig transaction_record" where
  "get_signed_tx env ph amt fee =
     (case get_client env of
        None \<Rightarrow> Inl AttributeError
      | Some wallet_client \<Rightarrow> wallet_client ph amt fee)"

section \<open>The issuance command: \<^verbatim>\<open>cli\<close>\<close>

text \<open>The command-line options that \<^verbatim>\<open>click\<close> passes to \<^verbatim>\<open>cli\<close>.\<close>

record options =
  opt_tail :: string
  opt_curry :: "string list"
  opt_solution :: string
  opt_send_to :: string
  opt_amount :: int
  opt_fee :: int
  opt_signature :: "string list"
  opt_spend :: "string list"
  opt_as_bytes :: bool
  opt_select_coin :: bool

text \<open>\<^verbatim>\<open>[assemble(arg) for arg in curry]\<close>: the arguments in the order given; the first
  one that does not assemble raises.\<close>

fun assemble_all :: "'sig collaborators \<Rightarrow> string list \<Rightarrow> error + program list" where
  "assemble_all env [] = Inr []"
| "assemble_all env (arg # args) =
     (case assemble env arg of
        Inl e \<Rightarrow> Inl e
      | Inr p \<Rightarrow> (case assemble_all env args of Inl e \<Rightarrow> Inl e | Inr ps \<Rightarrow> Inr (p # ps)))"

text \<open>The loop over \<^verbatim>\<open>signature\<close>; the accumulator starts as \<^verbatim>\<open>G2Element()\<close>.\<close>

fun aggregate_signatures :: "'sig::ab_group_add collaborators \<Rightarrow> 'sig \<Rightarrow> string list \<Rightarrow> error + 'sig" where
  "aggregate_signatures env acc [] = Inr acc"
| "aggregate_signatures env acc (sig # sigs) =
     (case hexstr_to_bytes env sig of
        Inl e \<Rightarrow> Inl e
      | Inr b \<Rightarrow>
          (case G2Element_from_bytes env b of
             Inl e \<Rightarrow> Inl e
           | Inr g \<Rightarrow> aggregate_signatures env (AugSchemeMPL_aggregate [acc, g]) sigs))"

text \<open>The loop over \<^verbatim>\<open>spend\<close>; the accumulator starts as \<^verbatim>\<open>SpendBundle([], G2Element())\<close>.\<close>

fun aggregate_spends :: "'sig::ab_group_add collaborators \<Rightarrow> 'sig spend_bundle \<Rightarrow> string list \<Rightarrow> error + 'sig spend_bundle" where
  "aggregate_spends env acc [] = Inr acc"
| "aggregate_spends env acc (bundle # bundles) =
     (case hexstr_to_bytes env bundle of
        Inl e \<Rightarrow> Inl e
      | Inr b \<Rightarrow>
          (case SpendBundle_from_bytes env b of
             Inl e \<Rightarrow> Inl e
           | Inr sb \<Rightarrow> aggregate_spends env (SpendBundle_aggregate [acc, sb]) bundles))"

text \<open>\<^verbatim>\<open># Construct the TAIL\<close>\<close>

definition construct_tail :: "'sig collaborators \<Rightarrow> program \<Rightarrow> program list \<Rightarrow> program" where
  "construct_tail env tail curried_args =
     (if length curried_args > 0 then Program_curry env tail curried_args else tail)"

text \<open>\<^verbatim>\<open># Construct the intermediate puzzle\<close>\<close>

definition p2_puzzle :: "'sig collaborators \<Rightarrow> program \<Rightarrow> program \<Rightarrow> bytes \<Rightarrow> int \<Rightarrow> program" where
  "p2_puzzle env curried_tail tail_solution address amt =
     Program_to (int_to_bytes env)
       (Py_tuple (Py_int 1)
          (Py_list
             [Py_list [Py_int 51, Py_int 0, Py_int (- 113), Py_program curried_tail, Py_program tail_solution],
              Py_list [Py_int 51, Py_bytes address, Py_int amt]]))"

text \<open>The values of the local variables of \<^verbatim>\<open>cli\<close> that are bound before the wallet call.\<close>

record 'sig locals =
  l_curried_tail :: program
  l_solution :: program
  l_address :: bytes
  l_aggregated_signature :: 'sig
  l_aggregated_spend :: "'sig spend_bundle"
  l_p2_puzzle :: program
  l_cat_ph :: bytes

text \<open>The statements of \<^verbatim>\<open>cli\<close> from \<^verbatim>\<open>tail = parse_program(tail)\<close> to
  \<^verbatim>\<open>cat_ph = cat_puzzle.get_tree_hash()\<close>, in the order of the source.\<close>

definition prepare :: "'sig::ab_group_add collaborators \<Rightarrow> options \<Rightarrow> error + 'sig locals" where
  "prepare env opts =
     bindE (parse_program env (Str (opt_tail opts)) []) (\<lambda>tail.
     bindE (assemble_all env (opt_curry opts)) (\<lambda>curried_args.
     bindE (parse_program env (Str (opt_solution opts)) []) (\<lambda>tail_solution.
     bindE (decode_puzzle_hash env (opt_send_to opts)) (\<lambda>address.
     bindE (aggregate_signatures env G2Element (opt_signature opts)) (\<lambda>agg_signature.
     bindE (aggregate_spends env \<lparr>coin_spends = [], aggregated_signature = G2Element\<rparr> (opt_spend opts)) (\<lambda>agg_spend.
       let curried_tail = construct_tail env tail curried_args;
           p2 = p2_puzzle env curried_tail tail_solution address (opt_amount opts);
           cat_puzzle = construct_cc_puzzle env (CC_MOD env) (get_tree_hash env curried_tail) p2;
           cat_ph = get_tree_hash env cat_puzzle
       in Inr \<lparr>l_curried_tail = curried_tail, l_solution = tail_solution, l_address = address,
                l_aggregated_signature = agg_signature, l_aggregated_spend = agg_spend,
                l_p2_puzzle = p2, l_cat_ph = cat_ph\<rparr>))))))"

text \<open>The created coins of the funding transaction that sit at the wrapped puzzle hash,
  and \<^verbatim>\<open>eve_coin = list(filter(...))[0]\<close>.\<close>

definition eve_candidates :: "bytes \<Rightarrow> coin list \<Rightarrow> coin list" where
  "eve_candidates cat_ph created = filter (\<lambda>c. puzzle_hash c = cat_ph) created"

definition eve_coin :: "bytes \<Rightarrow> coin list \<Rightarrow> error + coin" where
  "eve_coin cat_ph created = first (eve_candidates cat_ph created)"

text \<open>\<^verbatim>\<open>primary_coin = list(filter(...))[0]\<close> of the select-coin exit.\<close>

definition primary_coin :: "'sig collaborators \<Rightarrow> coin \<Rightarrow> coin list \<Rightarrow> error + coin" where
  "primary_coin env eve consumed =
     first (filter (\<lambda>c. coin_name env c = parent_coin_info eve) consumed)"

text \<open>\<^verbatim>\<open># Create the CAT spend\<close>; \<^verbatim>\<open>Program.to([])\<close> is nil.\<close>

definition spendable_eve :: "'sig collaborators \<Rightarrow> 'sig locals \<Rightarrow> coin \<Rightarrow> spendable_cc" where
  "spendable_eve env l eve =
     \<lparr>cc_coin = eve,
      limitations_program_hash = get_tree_hash env (l_curried_tail l),
      inner_puzzle = l_p2_puzzle l,
      inner_solution = Atom [],
      limitations_solution = l_solution l,
      limitations_program_reveal = l_curried_tail l\<rparr>"

text \<open>\<^verbatim>\<open># Aggregate everything together\<close>\<close>

definition final_bundle :: "'sig::ab_group_add collaborators \<Rightarrow> 'sig locals \<Rightarrow> 'sig spend_bundle \<Rightarrow> coin \<Rightarrow> error + 'sig spend_bundle" where
  "final_bundle env l tx_bundle eve =
     bindE (unsigned_spend_bundle_for_spendable_ccs env (CC_MOD env) [spendable_eve env l eve]) (\<lambda>eve_spend.
       Inr (SpendBundle_aggregate
              [tx_bundle, eve_spend, l_aggregated_spend l,
               \<lparr>coin_spends = [], aggregated_signature = l_aggregated_signature l\<rparr>]))"

text \<open>What the command prints, line by line.\<close>

datatype stdout_line =
    Coin_json coin            \<comment> \<open>\<^verbatim>\<open>json.dumps(primary_coin.to_json_dict(), ...)\<close>\<close>
  | Name_line bytes           \<comment> \<open>\<^verbatim>\<open>Name: ...\<close>\<close>
  | Asset_ID_line bytes       \<comment> \<open>\<^verbatim>\<open>Asset ID: ...\<close>\<close>
  | Spend_Bundle_line string  \<comment> \<open>\<^verbatim>\<open>Spend Bundle: ...\<close>\<close>

text \<open>The text of the final bundle: \<^verbatim>\<open>bytes(final_bundle).hex()\<close> or \<^verbatim>\<open>json.dumps(final_bundle, ...)\<close>.\<close>

definition show_bundle :: "'sig collaborators \<Rightarrow> bool \<Rightarrow> 'sig spend_bundle \<Rightarrow> error + string" where
  "show_bundle env as_bytes fb =
     (if as_bytes then Inr (hex (SpendBundle_bytes env fb)) else json_dumps env fb)"

text \<open>The statements of \<^verbatim>\<open>cli\<close> after the eve coin is bound: the select-coin exit, or the
  genesis spend, the aggregation and the two printed lines.\<close>

definition after_eve_coin :: "'sig::ab_group_add collaborators \<Rightarrow> options \<Rightarrow> 'sig locals \<Rightarrow> 'sig transaction_record \<Rightarrow> coin \<Rightarrow> error + stdout_line list" where
  "after_eve_coin env opts l signed_tx eve =
     (if opt_select_coin opts then
        bindE (primary_coin env eve (removals env (spend_bundle signed_tx))) (\<lambda>selected.
          Inr [Coin_json selected, Name_line (coin_name env selected)])
      else
        bindE (final_bundle env l (spend_bundle signed_tx) eve) (\<lambda>fb.
        bindE (show_bundle env (opt_as_bytes opts) fb) (\<lambda>shown.
          Inr [Asset_ID_line (get_tree_hash env (l_curried_tail l)), Spend_Bundle_line shown])))"

definition cli :: "'sig::ab_group_add collaborators \<Rightarrow> options \<Rightarrow> error + stdout_line list" where
  "cli env opts =
     bindE (prepare env opts) (\<lambda>l.
     bindE (get_signed_tx env (l_cat_ph l) (opt_amount opts) (opt_fee opts)) (\<lambda>signed_tx.
     bindE (eve_coin (l_cat_ph l) (additions env (spend_bundle signed_tx))) (\<lambda>eve.
       after_eve_coin env opts l signed_tx eve)))"


section \<open>A test double for the libraries and the wallet\<close>

text \<open>
  A small stand-in for the collaborators, with integers as the signature group. Its
  wallet spends one funding coin; the created coins are read off the solution of that
  spend: one coin at the requested puzzle hash, and the change.
\<close>

fun flatten :: "program \<Rightarrow> bytes" where
  "flatten (Atom a) = a"
| "flatten (ConsBox l r) = flatten l @ flatten r"

definition mock_funding_coin :: coin where
  "mock_funding_coin = \<lparr>parent_coin_info = [0xAA], puzzle_hash = [0xBB], amount = 500\<rparr>"

definition mock_wallet :: "int wallet_client" where
  "mock_wallet ph amt fee =
     Inr \<lparr>spend_bundle =
            \<lparr>coin_spends = [\<lparr>coin = mock_funding_coin, puzzle_reveal = Atom [1],
                             solution = ConsBox (Atom ph) (Atom [])\<rparr>],
             aggregated_signature = 7\<rparr>\<rparr>"

definition mock_name :: "coin \<Rightarrow> bytes" where
  "mock_name c = parent_coin_info c @ puzzle_hash c @ [word_of_int (amount c)]"

definition mock_additions :: "int spend_bundle \<Rightarrow> coin list" where
  "mock_additions b =
     concat (map (\<lambda>cs. case solution cs of
                          ConsBox (Atom ph) _ \<Rightarrow>
                            [\<lparr>parent_coin_info = mock_name (coin cs), puzzle_hash = ph, amount = 100\<rparr>,
                             \<lparr>parent_coin_info = mock_name (coin cs), puzzle_hash = puzzle_hash (coin cs), amount = 400\<rparr>]
                        | _ \<Rightarrow> []) (coin_spends b))"

definition mock_env :: "int collaborators" where
  "mock_env =
     \<lparr>assemble = (\<lambda>s. if s = ''()'' then Inr (Atom [])
                       else if s = ''1'' then Inr (Atom [1])
                       else if s = ''2'' then Inr (Atom [2])
                       else if s = ''(q . 1)'' then Inr (ConsBox (Atom [1]) (Atom [1]))
                       else Inl (CollaboratorError ''assemble'')),
      hexstr_to_bytes = (\<lambda>s. if s = ''01'' then Inr [1]
                              else if s = ''02'' then Inr [2]
                              else if s = ''80'' then Inr [0x80]
                              else Inl (CollaboratorError ''hexstr_to_bytes'')),
      Program_from_bytes = (\<lambda>b. if b = [0x80] then Inr (Atom [])
                                 else if b = [1] then Inr (Atom [1])
                                 else Inl (CollaboratorError ''Program.from_bytes'')),
      compile_clvm_text = (\<lambda>s paths. if s = ''(mod () 1)'' then Inr (ConsBox (Atom [1]) (Atom [1]))
                                      else Inl (CollaboratorError ''compile_clvm_text'')),
      read_file = (\<lambda>path. if path = ''tail.clsp'' then Inr ''(mod () 1)''
                           else if path = ''tail.clvm'' then Inr ''(q . 1)''
                           else if path = ''tail.hex'' then Inr ''01''
                           else Inl (CollaboratorError ''open'')),
      int_to_bytes = (\<lambda>i. if i = 0 then [] else [word_of_int i]),
      Program_curry = (\<lambda>p args. ConsBox (Atom [2]) (ConsBox (ConsBox (Atom [1]) p) (clvm_list args))),
      get_tree_hash = flatten,
      CC_MOD = Atom [0xCC],
      construct_cc_puzzle = (\<lambda>m h inner. ConsBox m (ConsBox (Atom h) inner)),
      decode_puzzle_hash = (\<lambda>s. if s = ''xch1dest'' then Inr [0xDE, 0x57]
                                 else if s = ''xch1other'' then Inr [0x07]
                                 else Inl (CollaboratorError ''decode_puzzle_hash'')),
      G2Element_from_bytes = (\<lambda>b. case b of
          [x] \<Rightarrow> Inr (uint x)
        | _ \<Rightarrow> Inl (CollaboratorError ''G2Element.from_bytes'')),
      SpendBundle_from_bytes = (\<lambda>b. case b of
          [x] \<Rightarrow> Inr \<lparr>coin_spends = [\<lparr>coin = \<lparr>parent_coin_info = [x], puzzle_hash = [x], amount = 1\<rparr>,
                                       puzzle_reveal = Atom [], solution = Atom []\<rparr>],
                       aggregated_signature = uint x\<rparr>
        | _ \<Rightarrow> Inl (CollaboratorError ''SpendBundle.from_bytes'')),
      load_config = Inr (''localhost'', 9256),
      WalletRpcClient_create = (\<lambda>config. Inr mock_wallet),
      additions = mock_additions,
      removals = (\<lambda>b. map coin (coin_spends b)),
      coin_name = mock_name,
      unsigned_spend_bundle_for_spendable_ccs = (\<lambda>m ccs.
          Inr \<lparr>coin_spends = map (\<lambda>cc. \<lparr>coin = cc_coin cc, puzzle_reveal = inner_puzzle cc,
                                         solution = limitations_solution cc\<rparr>) ccs,
               aggregated_signature = 0\<rparr>),
      SpendBundle_bytes = (\<lambda>b. [of_nat (length (coin_spends b)), word_of_int (aggregated_signature b)]),
      json_dumps = (\<lambda>b. Inl (CollaboratorError ''json.dumps''))\<rparr>"

definition mock_options :: options where
  "mock_options =
     \<lparr>opt_tail = ''(q . 1)'', opt_curry = [], opt_solution = ''()'', opt_send_to = ''xch1dest'',
      opt_amount = 100, opt_fee = 0, opt_signature = [], opt_spend = [],
      opt_as_bytes = True, opt_select_coin = False\<rparr>"

definition mock_options_extras :: options where
  "mock_options_extras =
     mock_options\<lparr>opt_curry := [''1'', ''2''], opt_signature := [''01'', ''02''], opt_spend := [''02'']\<rparr>"

text \<open>The local values and the funding transaction of the run on \<open>mock_options\<close>.\<close>

definition mock_tail :: program where
  "mock_tail = ConsBox (Atom [1]) (Atom [1])"

definition mock_locals :: "int locals" where
  "mock_locals =
     \<lparr>l_curried_tail = mock_tail, l_solution = Atom [], l_address = [0xDE, 0x57],
      l_aggregated_signature = 0,
      l_aggregated_spend = \<lparr>coin_spends = [], aggregated_signature = 0\<rparr>,
      l_p2_puzzle =
        ConsBox (Atom [1])
          (clvm_list [clvm_list [Atom [51], Atom [], Atom [143], mock_tail, Atom []],
                      clvm_list [Atom [51], Atom [0xDE, 0x57], Atom [100]]]),
      l_cat_ph = [204, 1, 1, 1, 51, 143, 1, 1, 51, 222, 87, 100]\<rparr>"

definition mock_tx :: "int transaction_record" where
  "mock_tx =
     \<lparr>spend_bundle =
        \<lparr>coin_spends = [\<lparr>coin = mock_funding_coin, puzzle_reveal = Atom [1],
                         solution = ConsBox (Atom (l_cat_ph mock_locals)) (Atom [])\<rparr>],
         aggregated_signature = 7\<rparr>\<rparr>"

text \<open>The coin that the stand-in wallet creates at the requested puzzle hash.\<close>

definition mock_eve :: coin where
  "mock_eve = \<lparr>parent_coin_info = [0xAA, 0xBB, 0xF4], puzzle_hash = l_cat_ph mock_locals, amount = 100\<rparr>"

text \<open>The local values of the run on \<open>mock_options_extras\<close>.\<close>

definition mock_curried_tail :: program where
  "mock_curried_tail =
     ConsBox (Atom [2]) (ConsBox (ConsBox (Atom [1]) mock_tail) (clvm_list [Atom [1], Atom [2]]))"

definition mock_locals_extras :: "int locals" where
  "mock_locals_extras =
     \<lparr>l_curried_tail = mock_curried_tail, l_solution = Atom [], l_address = [0xDE, 0x57],
      l_aggregated_signature = 3,
      l_aggregated_spend =
        \<lparr>coin_spends = [\<lparr>coin = \<lparr>parent_coin_info = [2], puzzle_hash = [2], amount = 1\<rparr>,
                         puzzle_reveal = Atom [], solution = Atom []\<rparr>],
         aggregated_signature = 2\<rparr>,
      l_p2_puzzle =
        ConsBox (Atom [1])
          (clvm_list [clvm_list [Atom [51], Atom [], Atom [143], mock_curried_tail, Atom []],
                      clvm_list [Atom [51], Atom [0xDE, 0x57], Atom [100]]]),
      l_cat_ph = [204, 2, 1, 1, 1, 1, 2, 1, 51, 143, 2, 1, 1, 1, 1, 2, 51, 222, 87, 100]\<rparr>"

text \<open>A ledger library under which the funding transaction creates two coins at the
  requested puzzle hash, and one under which it creates none there.\<close>

definition mock_env_two :: "int collaborators" where
  "mock_env_two =
     mock_env\<lparr>additions := (\<lambda>b. mock_additions b @
                  map (\<lambda>cs. \<lparr>parent_coin_info = mock_name (coin cs),
                              puzzle_hash = l_cat_ph mock_locals, amount = 1\<rparr>) (coin_spends b))\<rparr>"

definition mock_env_none :: "int collaborators" where
  "mock_env_none = mock_env\<lparr>additions := (\<lambda>b. map coin (coin_spends b))\<rparr>"

text \<open>A second run: another wallet, destination, amount, fee and solution, the same TAIL.\<close>

definition mock_env_other_wallet :: "int collaborators" where
  "mock_env_other_wallet =
     mock_env\<lparr>load_config := Inr (''wallet.example'', 9257),
              WalletRpcClient_create := (\<lambda>config. Inr (\<lambda>ph amt fee.
                Inr \<lparr>spend_bundle =
                      \<lparr>coin_spends = [\<lparr>coin = \<lparr>parent_coin_info = [0x11], puzzle_hash = [0x22], amount = 60\<rparr>,
                                       puzzle_reveal = Atom [1], solution = ConsBox (Atom ph) (Atom [])\<rparr>],
                       aggregated_signature = 9\<rparr>\<rparr>))\<rparr>"

definition mock_options_other :: options where
  "mock_options_other =
     mock_options\<lparr>opt_send_to := ''xch1other'', opt_amount := 50, opt_fee := 3, opt_solution := ''80''\<rparr>"

definition mock_options_extras_other :: options where
  "mock_options_extras_other =
     mock_options_extras\<lparr>opt_send_to := ''xch1other'', opt_amount := 50, opt_fee := 3,
                           opt_solution := ''80''\<rparr>"

text \<open>The final bundle of the run on \<open>mock_options\<close>.\<close>

definition mock_final_bundle :: "int spend_bundle" where
  "mock_final_bundle =
     \<lparr>coin_spends = coin_spends (spend_bundle mock_tx) @
        [\<lparr>coin = mock_eve, puzzle_reveal = l_p2_puzzle mock_locals, solution = Atom []\<rparr>],
      aggregated_signature = 7\<rparr>"

section \<open>Basic facts\<close>

lemma bindE_Inr [simp]: "bindE (Inr x) f = f x"
  by (simp add: bindE_def)

lemma bindE_Inl [simp]: "bindE (Inl e) f = Inl e"
  by (simp add: bindE_def)

lemma bindE_eq_Inr: "bindE m f = Inr y \<longleftrightarrow> (\<exists>x. m = Inr x \<and> f x = Inr y)"
  by (cases m) simp_all

section \<open>Properties of the resolver\<close>

text \<open>
  C9: for every file input whose contents contain an opening parenthesis and match the
  module pattern, \<^verbatim>\<open>parse_program\<close> raises an error instead of returning a compiled
  program: the helper \<^verbatim>\<open>append_include\<close> it calls is an undefined name, so the compile
  branch never returns a program.
\<close>

theorem chialisp_file_raises_NameError:
  assumes "CHR ''('' \<notin> set path" and "CHR ''.'' \<in> set path"
    and "read_file env path = Inr filestring"
    and "CHR ''('' \<in> set filestring" and "search_mod filestring"
  shows "parse_program env (Str path) include_paths = Inl (NameError ''append_include'')
       \<and> (\<forall>p. parse_program env (Str path) include_paths \<noteq> Inr p)"
  using assms by (simp add: parse_program_def append_include_def)

theorem chialisp_file_raises_NameError_witness:
  "CHR ''('' \<notin> set ''tail.clsp'' \<and> CHR ''.'' \<in> set ''tail.clsp''
   \<and> read_file mock_env ''tail.clsp'' = Inr ''(mod () 1)''
   \<and> CHR ''('' \<in> set ''(mod () 1)'' \<and> search_mod ''(mod () 1)''
   \<and> parse_program mock_env (Str ''tail.clsp'') [''include''] = Inl (NameError ''append_include'')"
proof -
  have h1: "CHR ''('' \<notin> set ''tail.clsp''" by simp
  have h2: "CHR ''.'' \<in> set ''tail.clsp''" by simp
  have h3: "read_file mock_env ''tail.clsp'' = Inr ''(mod () 1)''" by (simp add: mock_env_def)
  have h4: "CHR ''('' \<in> set ''(mod () 1)''" by simp
  have h5: "search_mod ''(mod () 1)''" by (simp add: isspace_def)
  from chialisp_file_raises_NameError [OF h1 h2 h3 h4 h5, of "[''include'']"] h1 h2 h3 h4 h5
  show ?thesis by blast
qed

text \<open>
  C3: the resolution order of \<^verbatim>\<open>parse_program\<close>. The order of the branches is as
  stated (the lemmas that follow), but a file of high-level source is not compiled: at
  the file \<^verbatim>\<open>tail.clsp\<close> with contents \<^verbatim>\<open>(mod () 1)\<close>, which the compiler would
  compile, the resolver raises \<^verbatim>\<open>NameError\<close>.
\<close>

theorem chialisp_source_file_is_not_compiled:
  "read_file mock_env ''tail.clsp'' = Inr ''(mod () 1)''
   \<and> compile_clvm_text mock_env ''(mod () 1)'' [] = Inr (ConsBox (Atom [1]) (Atom [1]))
   \<and> parse_program mock_env (Str ''tail.clsp'') [] = Inl (NameError ''append_include'')"
  by (simp add: parse_program_def mock_env_def append_include_def isspace_def)

lemma parse_program_resolved: "parse_program env (Prog p) inc = Inr p"
  by (simp add: parse_program_def)

lemma parse_program_inline:
  "CHR ''('' \<in> set s \<Longrightarrow> parse_program env (Str s) inc = assemble env s"
  by (simp add: parse_program_def)

lemma parse_program_hex:
  "CHR ''('' \<notin> set s \<Longrightarrow> CHR ''.'' \<notin> set s \<Longrightarrow>
   parse_program env (Str s) inc = bindE (hexstr_to_bytes env s) (Program_from_bytes env)"
  by (simp add: parse_program_def)

lemma parse_program_file_assembly:
  "CHR ''('' \<notin> set s \<Longrightarrow> CHR ''.'' \<in> set s \<Longrightarrow> read_file env s = Inr filestring \<Longrightarrow>
   CHR ''('' \<in> set filestring \<Longrightarrow> \<not> search_mod filestring \<Longrightarrow>
   parse_program env (Str s) inc = assemble env filestring"
  by (simp add: parse_program_def)

lemma parse_program_file_hex:
  "CHR ''('' \<notin> set s \<Longrightarrow> CHR ''.'' \<in> set s \<Longrightarrow> read_file env s = Inr filestring \<Longrightarrow>
   CHR ''('' \<notin> set filestring \<Longrightarrow>
   parse_program env (Str s) inc = bindE (hexstr_to_bytes env filestring) (Program_from_bytes env)"
  by (simp add: parse_program_def)

section \<open>The inner puzzle\<close>




section \<open>Facts about the stages of \<^verbatim>\<open>cli\<close>\<close>

lemma prepare_Inr:
  "prepare env opts = Inr l \<longleftrightarrow>
     (\<exists>tail curried_args tail_solution address agg_signature agg_spend.
        parse_program env (Str (opt_tail opts)) [] = Inr tail
      \<and> assemble_all env (opt_curry opts) = Inr curried_args
      \<and> parse_program env (Str (opt_solution opts)) [] = Inr tail_solution
      \<and> decode_puzzle_hash env (opt_send_to opts) = Inr address
      \<and> aggregate_signatures env G2Element (opt_signature opts) = Inr agg_signature
      \<and> aggregate_spends env \<lparr>coin_spends = [], aggregated_signature = G2Element\<rparr> (opt_spend opts) = Inr agg_spend
      \<and> l = \<lparr>l_curried_tail = construct_tail env tail curried_args,
              l_solution = tail_solution, l_address = address,
              l_aggregated_signature = agg_signature, l_aggregated_spend = agg_spend,
              l_p2_puzzle = p2_puzzle env (construct_tail env tail curried_args) tail_solution address (opt_amount opts),
              l_cat_ph = get_tree_hash env (construct_cc_puzzle env (CC_MOD env)
                           (get_tree_hash env (construct_tail env tail curried_args))
                           (p2_puzzle env (construct_tail env tail curried_args) tail_solution address (opt_amount opts)))\<rparr>)"
  unfolding prepare_def by (simp add: bindE_eq_Inr Let_def eq_commute [of l])

lemma assemble_all_Inr:
  "assemble_all env args = Inr ps \<longleftrightarrow> list_all2 (\<lambda>arg p. assemble env arg = Inr p) args ps"
proof (induction args arbitrary: ps)
  case Nil
  show ?case by auto
next
  case (Cons arg args)
  show ?case
    by (cases ps) (auto simp: Cons.IH [symmetric] split: sum.splits)
qed

lemma aggregate_pair [simp]: "AugSchemeMPL_aggregate [a, g] = a + g"
  by (simp add: AugSchemeMPL_aggregate_def G2Element_def)

lemma aggregate_signatures_Inr:
  "aggregate_signatures env acc sigs = Inr s \<longleftrightarrow>
     (\<exists>gs. list_all2 (\<lambda>sig g. bindE (hexstr_to_bytes env sig) (G2Element_from_bytes env) = Inr g) sigs gs
          \<and> s = foldl (+) acc gs)"
proof (induction sigs arbitrary: acc)
  case Nil
  show ?case by auto
next
  case (Cons sig sigs)
  show ?case
    by (auto simp: Cons.IH list_all2_Cons1 bindE_eq_Inr split: sum.splits)
qed

lemma aggregate_spends_Inr:
  "aggregate_spends env acc bundles = Inr sb \<longleftrightarrow>
     (\<exists>bs. list_all2 (\<lambda>bundle b. bindE (hexstr_to_bytes env bundle) (SpendBundle_from_bytes env) = Inr b) bundles bs
          \<and> sb = foldl (\<lambda>a b. SpendBundle_aggregate [a, b]) acc bs)"
proof (induction bundles arbitrary: acc)
  case Nil
  show ?case by auto
next
  case (Cons b0 bs0)
  show ?case
    by (auto simp: Cons.IH list_all2_Cons1 bindE_eq_Inr split: sum.splits)
qed

lemma foldl_plus_sum_list: "foldl (+) (a :: 'a :: ab_group_add) xs = a + sum_list xs"
  by (induction xs arbitrary: a) (simp_all add: add.assoc)

lemma coin_spends_fold_aggregate:
  "coin_spends (foldl (\<lambda>a b. SpendBundle_aggregate [a, b]) acc bs) = coin_spends acc @ concat (map coin_spends bs)"
  by (induction bs arbitrary: acc) (simp_all add: SpendBundle_aggregate_def)

lemma signature_fold_aggregate:
  "aggregated_signature (foldl (\<lambda>a b. SpendBundle_aggregate [a, b]) acc bs)
     = aggregated_signature acc + sum_list (map aggregated_signature bs)"
  by (induction bs arbitrary: acc) (simp_all add: SpendBundle_aggregate_def add.assoc)

lemma cli_Inr:
  "cli env opts = Inr out \<longleftrightarrow>
     (\<exists>l signed_tx eve.
        prepare env opts = Inr l
      \<and> get_signed_tx env (l_cat_ph l) (opt_amount opts) (opt_fee opts) = Inr signed_tx
      \<and> eve_coin (l_cat_ph l) (additions env (spend_bundle signed_tx)) = Inr eve
      \<and> after_eve_coin env opts l signed_tx eve = Inr out)"
  unfolding cli_def by (simp add: bindE_eq_Inr)

lemma after_eve_coin_issue:
  "\<not> opt_select_coin opts \<Longrightarrow>
   after_eve_coin env opts l signed_tx eve = Inr out \<longleftrightarrow>
     (\<exists>fb shown.
        final_bundle env l (spend_bundle signed_tx) eve = Inr fb
      \<and> show_bundle env (opt_as_bytes opts) fb = Inr shown
      \<and> out = [Asset_ID_line (get_tree_hash env (l_curried_tail l)), Spend_Bundle_line shown])"
  unfolding after_eve_coin_def by (auto simp: bindE_eq_Inr)

lemma final_bundle_Inr:
  "final_bundle env l tx_bundle eve = Inr fb \<longleftrightarrow>
     (\<exists>eve_spend.
        unsigned_spend_bundle_for_spendable_ccs env (CC_MOD env) [spendable_eve env l eve] = Inr eve_spend
      \<and> fb = SpendBundle_aggregate
                [tx_bundle, eve_spend, l_aggregated_spend l,
                 \<lparr>coin_spends = [], aggregated_signature = l_aggregated_signature l\<rparr>])"
  unfolding final_bundle_def by (auto simp: bindE_eq_Inr)

lemma aggregate_four:
  "SpendBundle_aggregate [a, b, c, d] =
     \<lparr>coin_spends = coin_spends a @ coin_spends b @ coin_spends c @ coin_spends d,
      aggregated_signature = aggregated_signature a + aggregated_signature b
                             + aggregated_signature c + aggregated_signature d\<rparr>"
  by (simp add: SpendBundle_aggregate_def AugSchemeMPL_aggregate_def G2Element_def)

lemma fold_aggregate_pair:
  "foldl (\<lambda>a g. AugSchemeMPL_aggregate [a, g]) acc gs = foldl (+) acc gs"
  by simp

section \<open>The aggregator\<close>

text \<open>
  C4: when the command issues (no select-coin exit), the final spend bundle is the bundle
  aggregation of exactly four operands: the spend bundle of the funding transaction, the
  genesis spend bundle of the eve coin, the fold of the extra spend bundles given on the
  command line, and a bundle with no coin spends that carries the folded extra
  signature. Its coin spends are the concatenation of the operands' coin spends and its
  signature is the group sum of the operands' signatures; the text printed is the text
  of that bundle.
\<close>

theorem final_bundle_aggregates_four_operands:
  assumes "cli env opts = Inr out" and "\<not> opt_select_coin opts"
  shows "\<exists>l signed_tx eve eve_spend extra_bundles extra_sigs fb shown.
      prepare env opts = Inr l
    \<and> get_signed_tx env (l_cat_ph l) (opt_amount opts) (opt_fee opts) = Inr signed_tx
    \<and> eve_coin (l_cat_ph l) (additions env (spend_bundle signed_tx)) = Inr eve
    \<and> unsigned_spend_bundle_for_spendable_ccs env (CC_MOD env) [spendable_eve env l eve] = Inr eve_spend
    \<and> list_all2 (\<lambda>s b. bindE (hexstr_to_bytes env s) (SpendBundle_from_bytes env) = Inr b)
         (opt_spend opts) extra_bundles
    \<and> list_all2 (\<lambda>s g. bindE (hexstr_to_bytes env s) (G2Element_from_bytes env) = Inr g)
         (opt_signature opts) extra_sigs
    \<and> fb = SpendBundle_aggregate
             [spend_bundle signed_tx, eve_spend,
              foldl (\<lambda>a b. SpendBundle_aggregate [a, b])
                \<lparr>coin_spends = [], aggregated_signature = G2Element\<rparr> extra_bundles,
              \<lparr>coin_spends = [],
               aggregated_signature = foldl (\<lambda>a g. AugSchemeMPL_aggregate [a, g]) G2Element extra_sigs\<rparr>]
    \<and> coin_spends fb =
        coin_spends (spend_bundle signed_tx) @ coin_spends eve_spend @ concat (map coin_spends extra_bundles)
    \<and> aggregated_signature fb =
        aggregated_signature (spend_bundle signed_tx) + aggregated_signature eve_spend
        + sum_list (map aggregated_signature extra_bundles) + sum_list extra_sigs
    \<and> show_bundle env (opt_as_bytes opts) fb = Inr shown
    \<and> out = [Asset_ID_line (get_tree_hash env (l_curried_tail l)), Spend_Bundle_line shown]"
proof -
  from assms obtain l signed_tx eve fb shown where
    l: "prepare env opts = Inr l"
    and tx: "get_signed_tx env (l_cat_ph l) (opt_amount opts) (opt_fee opts) = Inr signed_tx"
    and eve: "eve_coin (l_cat_ph l) (additions env (spend_bundle signed_tx)) = Inr eve"
    and fb: "final_bundle env l (spend_bundle signed_tx) eve = Inr fb"
    and shown: "show_bundle env (opt_as_bytes opts) fb = Inr shown"
    and out: "out = [Asset_ID_line (get_tree_hash env (l_curried_tail l)), Spend_Bundle_line shown]"
    by (auto simp: cli_Inr after_eve_coin_issue)
  from fb obtain eve_spend where
    es: "unsigned_spend_bundle_for_spendable_ccs env (CC_MOD env) [spendable_eve env l eve] = Inr eve_spend"
    and fb_eq: "fb = SpendBundle_aggregate
                [spend_bundle signed_tx, eve_spend, l_aggregated_spend l,
                 \<lparr>coin_spends = [], aggregated_signature = l_aggregated_signature l\<rparr>]"
    by (auto simp: final_bundle_Inr)
  from l have
    sig: "aggregate_signatures env G2Element (opt_signature opts) = Inr (l_aggregated_signature l)"
    and sp: "aggregate_spends env \<lparr>coin_spends = [], aggregated_signature = G2Element\<rparr> (opt_spend opts)
              = Inr (l_aggregated_spend l)"
    by (auto simp: prepare_Inr)
  from sig obtain extra_sigs where
    sigs: "list_all2 (\<lambda>s g. bindE (hexstr_to_bytes env s) (G2Element_from_bytes env) = Inr g)
             (opt_signature opts) extra_sigs"
    and sig_eq: "l_aggregated_signature l = foldl (+) G2Element extra_sigs"
    by (auto simp: aggregate_signatures_Inr)
  from sp obtain extra_bundles where
    bundles: "list_all2 (\<lambda>s b. bindE (hexstr_to_bytes env s) (SpendBundle_from_bytes env) = Inr b)
         (opt_spend opts) extra_bundles"
    and sp_eq: "l_aggregated_spend l = foldl (\<lambda>a b. SpendBundle_aggregate [a, b])
                \<lparr>coin_spends = [], aggregated_signature = G2Element\<rparr> extra_bundles"
    by (auto simp: aggregate_spends_Inr)
  have four: "fb = SpendBundle_aggregate
             [spend_bundle signed_tx, eve_spend,
              foldl (\<lambda>a b. SpendBundle_aggregate [a, b])
                \<lparr>coin_spends = [], aggregated_signature = G2Element\<rparr> extra_bundles,
              \<lparr>coin_spends = [],
               aggregated_signature = foldl (\<lambda>a g. AugSchemeMPL_aggregate [a, g]) G2Element extra_sigs\<rparr>]"
    using fb_eq sig_eq sp_eq by (simp add: fold_aggregate_pair)
  have spends: "coin_spends fb =
        coin_spends (spend_bundle signed_tx) @ coin_spends eve_spend @ concat (map coin_spends extra_bundles)"
    unfolding fb_eq aggregate_four sp_eq by (simp add: coin_spends_fold_aggregate)
  have signature: "aggregated_signature fb =
        aggregated_signature (spend_bundle signed_tx) + aggregated_signature eve_spend
        + sum_list (map aggregated_signature extra_bundles) + sum_list extra_sigs"
    unfolding fb_eq aggregate_four sp_eq sig_eq
    by (simp add: signature_fold_aggregate foldl_plus_sum_list G2Element_def)
  from l tx eve es bundles sigs four spends signature shown out show ?thesis by blast
qed

text \<open>
  C10: extra signatures change only the signature of the final bundle. Two runs that
  differ only in the list of extra signatures bind the same local values except for the
  folded signature (so they request the same funding transaction), and for the same
  funding bundle and eve coin their final bundles have the same coin spends; the
  signatures differ by the difference of the folded extra signatures.
\<close>

theorem extra_signatures_leave_coin_spends:
  assumes "prepare env opts = Inr l"
    and "prepare env (opts\<lparr>opt_signature := sigs'\<rparr>) = Inr l'"
    and "final_bundle env l tx_bundle eve = Inr fb"
  shows "l' = l\<lparr>l_aggregated_signature := l_aggregated_signature l'\<rparr>
       \<and> (\<exists>fb'. final_bundle env l' tx_bundle eve = Inr fb'
               \<and> coin_spends fb' = coin_spends fb
               \<and> fb' = fb\<lparr>aggregated_signature :=
                            aggregated_signature fb - l_aggregated_signature l + l_aggregated_signature l'\<rparr>)"
proof -
  from assms(1,2) have same: "l' = l\<lparr>l_aggregated_signature := l_aggregated_signature l'\<rparr>"
    by (auto simp: prepare_Inr)
  from assms(1,2) have fields: "l_curried_tail l' = l_curried_tail l" "l_solution l' = l_solution l"
    "l_p2_puzzle l' = l_p2_puzzle l"
    and spend_same: "l_aggregated_spend l' = l_aggregated_spend l"
    by (auto simp: prepare_Inr)
  then have eve_same: "spendable_eve env l' eve = spendable_eve env l eve"
    by (simp add: spendable_eve_def)
  from assms(3) obtain eve_spend where
    es: "unsigned_spend_bundle_for_spendable_ccs env (CC_MOD env) [spendable_eve env l eve] = Inr eve_spend"
    and fb_eq: "fb = SpendBundle_aggregate
                [tx_bundle, eve_spend, l_aggregated_spend l,
                 \<lparr>coin_spends = [], aggregated_signature = l_aggregated_signature l\<rparr>]"
    by (auto simp: final_bundle_Inr)
  let ?fb' = "SpendBundle_aggregate
                [tx_bundle, eve_spend, l_aggregated_spend l',
                 \<lparr>coin_spends = [], aggregated_signature = l_aggregated_signature l'\<rparr>]"
  have "final_bundle env l' tx_bundle eve = Inr ?fb'"
    using es eve_same by (simp add: final_bundle_Inr)
  moreover have "coin_spends ?fb' = coin_spends fb"
    unfolding fb_eq aggregate_four spend_same by simp
  moreover have "?fb' = fb\<lparr>aggregated_signature :=
                            aggregated_signature fb - l_aggregated_signature l + l_aggregated_signature l'\<rparr>"
    unfolding fb_eq aggregate_four spend_same by simp
  ultimately show ?thesis using same by blast
qed

section \<open>Independence from collaborators that a stage does not call\<close>

lemma parse_program_env:
  assumes "assemble env' = assemble env" and "hexstr_to_bytes env' = hexstr_to_bytes env"
    and "Program_from_bytes env' = Program_from_bytes env"
    and "compile_clvm_text env' = compile_clvm_text env" and "read_file env' = read_file env"
  shows "parse_program env' p inc = parse_program env p inc"
  unfolding parse_program_def assms by (rule refl)

lemma assemble_all_env:
  assumes "assemble env' = assemble env"
  shows "assemble_all env' args = assemble_all env args"
  using assms by (induction args) (simp_all cong: sum.case_cong)

lemma aggregate_signatures_env:
  assumes "hexstr_to_bytes env' = hexstr_to_bytes env"
    and "G2Element_from_bytes env' = G2Element_from_bytes env"
  shows "aggregate_signatures env' acc sigs = aggregate_signatures env acc sigs"
  using assms by (induction sigs arbitrary: acc) (simp_all cong: sum.case_cong)

lemma aggregate_spends_env:
  assumes "hexstr_to_bytes env' = hexstr_to_bytes env"
    and "SpendBundle_from_bytes env' = SpendBundle_from_bytes env"
  shows "aggregate_spends env' acc bs = aggregate_spends env acc bs"
  using assms by (induction bs arbitrary: acc) (simp_all cong: sum.case_cong)

lemma prepare_env:
  assumes "assemble env' = assemble env" and "hexstr_to_bytes env' = hexstr_to_bytes env"
    and "Program_from_bytes env' = Program_from_bytes env"
    and "compile_clvm_text env' = compile_clvm_text env" and "read_file env' = read_file env"
    and "int_to_bytes env' = int_to_bytes env" and "Program_curry env' = Program_curry env"
    and "get_tree_hash env' = get_tree_hash env" and "CC_MOD env' = CC_MOD env"
    and "construct_cc_puzzle env' = construct_cc_puzzle env"
    and "decode_puzzle_hash env' = decode_puzzle_hash env"
    and "G2Element_from_bytes env' = G2Element_from_bytes env"
    and "SpendBundle_from_bytes env' = SpendBundle_from_bytes env"
  shows "prepare env' opts = prepare env opts"
proof -
  have parse: "parse_program env' p inc = parse_program env p inc" for p inc
    using assms by (intro parse_program_env)
  have args: "assemble_all env' args = assemble_all env args" for args
    using assms by (intro assemble_all_env)
  have sigs: "aggregate_signatures env' acc sigs = aggregate_signatures env acc sigs" for acc sigs
    using assms by (intro aggregate_signatures_env)
  have spends: "aggregate_spends env' acc bs = aggregate_spends env acc bs" for acc bs
    using assms by (intro aggregate_spends_env)
  show ?thesis
    unfolding prepare_def construct_tail_def p2_puzzle_def parse args sigs spends assms
    by (rule refl)
qed

section \<open>The funding coordinator\<close>

lemma cli_after_funding:
  assumes "prepare env opts = Inr l"
    and "get_signed_tx env (l_cat_ph l) (opt_amount opts) (opt_fee opts) = Inr signed_tx"
  shows "cli env opts =
           bindE (eve_coin (l_cat_ph l) (additions env (spend_bundle signed_tx)))
             (after_eve_coin env opts l signed_tx)"
  using assms by (simp add: cli_def)

text \<open>
  C1 (amended): after the wallet returns the signed transaction, the command looks among
  the created coins for those at the wrapped puzzle hash. With no such coin it stops
  with \<^verbatim>\<open>IndexError\<close>; with one or more it continues with the first of them, in the
  order of the created coins, as the eve coin.
\<close>

theorem eve_coin_is_first_match:
  assumes "prepare env opts = Inr l"
    and "get_signed_tx env (l_cat_ph l) (opt_amount opts) (opt_fee opts) = Inr signed_tx"
  shows "(eve_candidates (l_cat_ph l) (additions env (spend_bundle signed_tx)) = []
            \<longrightarrow> cli env opts = Inl IndexError)
       \<and> (\<forall>c cs. eve_candidates (l_cat_ph l) (additions env (spend_bundle signed_tx)) = c # cs
            \<longrightarrow> cli env opts = after_eve_coin env opts l signed_tx c)"
  by (simp add: cli_after_funding [OF assms] eve_coin_def first_def)

section \<open>The asset identifier\<close>

text \<open>
  C2: the asset identifier that an issuing run prints is the tree hash of the curried
  TAIL: of the resolved TAIL itself when there are no curry arguments, and otherwise of
  the TAIL curried (\<^verbatim>\<open>Program.curry\<close>) with the arguments assembled in the order given.
  Two issuing runs with the same TAIL option and the same curry arguments print the same
  asset identifier, whatever their destination, amount, fee, other options and wallet.
\<close>

theorem asset_id_depends_only_on_curried_tail:
  assumes "cli env opts = Inr out" and "\<not> opt_select_coin opts"
    and "cli (env\<lparr>load_config := config', WalletRpcClient_create := wallet'\<rparr>) opts' = Inr out'"
    and "\<not> opt_select_coin opts'"
    and "opt_tail opts' = opt_tail opts" and "opt_curry opts' = opt_curry opts"
  shows "\<exists>tail curried_args shown shown'.
       parse_program env (Str (opt_tail opts)) [] = Inr tail
     \<and> list_all2 (\<lambda>arg p. assemble env arg = Inr p) (opt_curry opts) curried_args
     \<and> out = [Asset_ID_line (get_tree_hash env
                 (if opt_curry opts = [] then tail else Program_curry env tail curried_args)),
              Spend_Bundle_line shown]
     \<and> out' = [Asset_ID_line (get_tree_hash env
                 (if opt_curry opts = [] then tail else Program_curry env tail curried_args)),
               Spend_Bundle_line shown']"
proof -
  let ?env' = "env\<lparr>load_config := config', WalletRpcClient_create := wallet'\<rparr>"
  have prep: "prepare ?env' o' = prepare env o'" for o'
    by (rule prepare_env) simp_all
  from assms(1,2) obtain l shown where
    l: "prepare env opts = Inr l"
    and out: "out = [Asset_ID_line (get_tree_hash env (l_curried_tail l)), Spend_Bundle_line shown]"
    by (auto simp: cli_Inr after_eve_coin_issue)
  from assms(3,4) obtain l' shown' where
    l': "prepare env opts' = Inr l'"
    and out': "out' = [Asset_ID_line (get_tree_hash env (l_curried_tail l')), Spend_Bundle_line shown']"
    by (auto simp: cli_Inr after_eve_coin_issue prep)
  from l obtain tail curried_args where
    tail: "parse_program env (Str (opt_tail opts)) [] = Inr tail"
    and args: "assemble_all env (opt_curry opts) = Inr curried_args"
    and ct: "l_curried_tail l = construct_tail env tail curried_args"
    by (auto simp: prepare_Inr)
  from l' tail args assms(5,6) have ct': "l_curried_tail l' = construct_tail env tail curried_args"
    by (auto simp: prepare_Inr)
  from args have rel: "list_all2 (\<lambda>arg p. assemble env arg = Inr p) (opt_curry opts) curried_args"
    by (simp add: assemble_all_Inr)
  then have "length curried_args = length (opt_curry opts)"
    by (simp add: list_all2_lengthD)
  then have curried: "construct_tail env tail curried_args =
      (if opt_curry opts = [] then tail else Program_curry env tail curried_args)"
    by (auto simp: construct_tail_def)
  from tail rel out out' show ?thesis
    unfolding ct ct' curried by blast
qed

section \<open>Currying\<close>

text \<open>
  C6: with no curry arguments the curried TAIL is the resolved TAIL program itself;
  with curry arguments it is the TAIL curried with the assembled arguments, the
  \<open>i\<close>-th of them assembled from the \<open>i\<close>-th argument given.
\<close>

theorem curried_tail_identity_and_order:
  assumes "prepare env opts = Inr l"
  shows "\<exists>tail curried_args.
       parse_program env (Str (opt_tail opts)) [] = Inr tail
     \<and> list_all2 (\<lambda>arg p. assemble env arg = Inr p) (opt_curry opts) curried_args
     \<and> (opt_curry opts = [] \<longrightarrow> l_curried_tail l = tail)
     \<and> (opt_curry opts \<noteq> [] \<longrightarrow> l_curried_tail l = Program_curry env tail curried_args)"
proof -
  from assms obtain tail curried_args where
    tail: "parse_program env (Str (opt_tail opts)) [] = Inr tail"
    and args: "assemble_all env (opt_curry opts) = Inr curried_args"
    and ct: "l_curried_tail l = construct_tail env tail curried_args"
    by (auto simp: prepare_Inr)
  from args have rel: "list_all2 (\<lambda>arg p. assemble env arg = Inr p) (opt_curry opts) curried_args"
    by (simp add: assemble_all_Inr)
  then have "length curried_args = length (opt_curry opts)"
    by (simp add: list_all2_lengthD)
  then have "(opt_curry opts = [] \<longrightarrow> construct_tail env tail curried_args = tail)
     \<and> (opt_curry opts \<noteq> [] \<longrightarrow> construct_tail env tail curried_args = Program_curry env tail curried_args)"
    by (auto simp: construct_tail_def)
  with tail rel ct show ?thesis by auto
qed

section \<open>Signature aggregation\<close>

lemma list_all2_functional:
  assumes "list_all2 R xs ys" and "\<And>x y. R x y \<Longrightarrow> y = f x"
  shows "ys = map f xs"
  using assms by (induction rule: list_all2_induct) auto

lemma aggregate_signatures_permutation:
  fixes env :: "'sig::ab_group_add collaborators"
  assumes "aggregate_signatures env acc sigs = Inr s" and "mset sigs' = mset sigs"
  shows "aggregate_signatures env acc sigs' = Inr s"
proof -
  let ?R = "\<lambda>sig g. bindE (hexstr_to_bytes env sig) (G2Element_from_bytes env) = Inr g"
  let ?dec = "\<lambda>sig. projr (bindE (hexstr_to_bytes env sig) (G2Element_from_bytes env))"
  from assms(1) obtain gs where gs: "list_all2 ?R sigs gs" and s: "s = foldl (+) acc gs"
    by (auto simp: aggregate_signatures_Inr)
  have gs_map: "gs = map ?dec sigs"
    using gs by (rule list_all2_functional) simp
  have ok: "?R sig (?dec sig)" if "sig \<in> set sigs" for sig
  proof -
    from that gs obtain g where "?R sig g"
      by (auto simp: list_all2_conv_all_nth in_set_conv_nth)
    then show ?thesis by simp
  qed
  have "set sigs' = set sigs"
    using assms(2) by (rule mset_eq_setD)
  then have rel': "list_all2 ?R sigs' (map ?dec sigs')"
    using ok by (simp add: list.rel_map list_all2_same)
  have "mset (map ?dec sigs') = mset (map ?dec sigs)"
    using assms(2) by simp
  then have "sum_mset (mset (map ?dec sigs')) = sum_mset (mset (map ?dec sigs))"
    by (rule arg_cong)
  then have "sum_list (map ?dec sigs') = sum_list (map ?dec sigs)"
    by (simp only: sum_mset_sum_list)
  then have "foldl (+) acc (map ?dec sigs') = s"
    by (simp add: s gs_map foldl_plus_sum_list)
  with rel' show ?thesis
    unfolding aggregate_signatures_Inr by blast
qed

text \<open>
  C7: the aggregated extra signature is the left fold of the group addition over the
  decoded signatures, in the order given and starting from the group zero; the loop
  over a permutation of the signature list returns the same signature, and a run of the
  command on the permuted list binds the same aggregated signature (and the same other
  local values).
\<close>

theorem extra_signatures_fold_and_permutation:
  assumes "aggregate_signatures env G2Element sigs = Inr s" and "mset sigs' = mset sigs"
  shows "(\<exists>gs. list_all2 (\<lambda>sig g. bindE (hexstr_to_bytes env sig) (G2Element_from_bytes env) = Inr g) sigs gs
             \<and> s = foldl (+) G2Element gs)
       \<and> aggregate_signatures env G2Element sigs' = Inr s
       \<and> (\<forall>opts l. opt_signature opts = sigs \<and> prepare env opts = Inr l \<longrightarrow>
             l_aggregated_signature l = s \<and> prepare env (opts\<lparr>opt_signature := sigs'\<rparr>) = Inr l)"
proof -
  from assms(1) have fold:
    "\<exists>gs. list_all2 (\<lambda>sig g. bindE (hexstr_to_bytes env sig) (G2Element_from_bytes env) = Inr g) sigs gs
             \<and> s = foldl (+) G2Element gs"
    by (simp add: aggregate_signatures_Inr)
  from assms have perm: "aggregate_signatures env G2Element sigs' = Inr s"
    by (rule aggregate_signatures_permutation)
  have "l_aggregated_signature l = s \<and> prepare env (opts\<lparr>opt_signature := sigs'\<rparr>) = Inr l"
    if "opt_signature opts = sigs" and "prepare env opts = Inr l" for opts l
    using that assms(1) perm by (auto simp: prepare_Inr)
  with fold perm show ?thesis by blast
qed

section \<open>The select-coin exit\<close>

text \<open>
  C8: with the select-coin flag the command looks among the consumed coins of the funding
  transaction for the coin whose name is the parent identifier of the eve coin, prints
  it and its name, and stops. Nothing else is printed, and the result does not depend on
  the genesis spend builder or on the serialisers of the final bundle, which are not
  called.
\<close>

theorem select_coin_exit:
  assumes "opt_select_coin opts" and "prepare env opts = Inr l"
    and "get_signed_tx env (l_cat_ph l) (opt_amount opts) (opt_fee opts) = Inr signed_tx"
    and "eve_coin (l_cat_ph l) (additions env (spend_bundle signed_tx)) = Inr eve"
  shows "cli env opts =
           (case filter (\<lambda>c. coin_name env c = parent_coin_info eve) (removals env (spend_bundle signed_tx)) of
              [] \<Rightarrow> Inl IndexError
            | c # _ \<Rightarrow> Inr [Coin_json c, Name_line (coin_name env c)])
       \<and> cli (env\<lparr>unsigned_spend_bundle_for_spendable_ccs := build, SpendBundle_bytes := serialise,
                   json_dumps := dumps\<rparr>) opts = cli env opts"
proof -
  let ?env' = "env\<lparr>unsigned_spend_bundle_for_spendable_ccs := build, SpendBundle_bytes := serialise,
                   json_dumps := dumps\<rparr>"
  have run: "cli env opts =
           (case filter (\<lambda>c. coin_name env c = parent_coin_info eve) (removals env (spend_bundle signed_tx)) of
              [] \<Rightarrow> Inl IndexError
            | c # _ \<Rightarrow> Inr [Coin_json c, Name_line (coin_name env c)])"
    using assms
    by (simp add: cli_def after_eve_coin_def primary_coin_def first_def split: list.splits)
  have prep: "prepare ?env' opts = prepare env opts"
    by (rule prepare_env) simp_all
  have tx: "get_signed_tx ?env' ph amt fee = get_signed_tx env ph amt fee" for ph amt fee
    by (simp add: get_signed_tx_def get_client_def cong: sum.case_cong)
  have "cli ?env' opts = cli env opts"
    using assms(1) by (simp add: cli_def prep tx after_eve_coin_def primary_coin_def)
  with run show ?thesis by simp
qed

section \<open>Runs of the test double\<close>

lemma mock_parse_tail: "parse_program mock_env (Str ''(q . 1)'') [] = Inr mock_tail"
  by (simp add: parse_program_def mock_env_def mock_tail_def)

lemma mock_parse_solution: "parse_program mock_env (Str ''()'') [] = Inr (Atom [])"
  by (simp add: parse_program_def mock_env_def)

lemma mock_prepare: "prepare mock_env mock_options = Inr mock_locals"
  unfolding prepare_def mock_options_def
  apply (simp add: mock_parse_tail mock_parse_solution)
  apply (simp add: mock_env_def mock_locals_def construct_tail_def p2_puzzle_def G2Element_def Let_def
      mock_tail_def clvm_list_def)
  done

lemma mock_get_signed_tx: "get_signed_tx mock_env (l_cat_ph mock_locals) 100 0 = Inr mock_tx"
  by (simp add: get_signed_tx_def get_client_def mock_env_def mock_wallet_def mock_tx_def)

lemma mock_additions_tx:
  "additions mock_env (spend_bundle mock_tx) =
     [mock_eve, \<lparr>parent_coin_info = [0xAA, 0xBB, 0xF4], puzzle_hash = [0xBB], amount = 400\<rparr>]"
  by (simp add: mock_env_def mock_additions_def mock_tx_def mock_eve_def mock_name_def mock_funding_coin_def)

lemma mock_eve_coin: "eve_coin (l_cat_ph mock_locals) (additions mock_env (spend_bundle mock_tx)) = Inr mock_eve"
  by (simp add: mock_additions_tx eve_coin_def eve_candidates_def first_def mock_eve_def mock_locals_def)

lemma mock_cli: "cli mock_env mock_options = Inr [Asset_ID_line [1, 1], Spend_Bundle_line ''0207'']"
  unfolding cli_def
  apply (simp add: mock_prepare)
  apply (simp add: mock_options_def)
  apply (simp add: mock_get_signed_tx [unfolded mock_options_def, simplified] mock_get_signed_tx mock_eve_coin)
  apply (simp add: after_eve_coin_def final_bundle_def spendable_eve_def show_bundle_def)
  apply (simp add: mock_env_def mock_locals_def mock_tx_def SpendBundle_aggregate_def
       AugSchemeMPL_aggregate_def G2Element_def hex_def hexdigit_def mock_tail_def)
  done

lemma prepare_select_coin: "prepare env (opts\<lparr>opt_select_coin := b\<rparr>) = prepare env opts"
  by (simp add: prepare_def)

lemma mock_prepare_extras: "prepare mock_env mock_options_extras = Inr mock_locals_extras"
  unfolding prepare_def mock_options_extras_def mock_options_def
  apply (simp add: mock_parse_tail mock_parse_solution)
  apply (simp add: mock_env_def mock_locals_extras_def construct_tail_def p2_puzzle_def G2Element_def
      Let_def mock_tail_def mock_curried_tail_def clvm_list_def SpendBundle_aggregate_def
      AugSchemeMPL_aggregate_def)
  done

lemma mock_prepare_signed:
  "prepare mock_env (mock_options\<lparr>opt_signature := [''01'', ''02'']\<rparr>)
     = Inr (mock_locals\<lparr>l_aggregated_signature := 3\<rparr>)"
  unfolding prepare_def mock_options_def
  apply (simp add: mock_parse_tail mock_parse_solution)
  apply (simp add: mock_env_def mock_locals_def construct_tail_def p2_puzzle_def G2Element_def Let_def
      mock_tail_def clvm_list_def AugSchemeMPL_aggregate_def)
  done

lemma mock_amount_fee: "opt_amount mock_options = 100" "opt_fee mock_options = 0"
  "\<not> opt_select_coin mock_options" "opt_as_bytes mock_options"
  by (simp_all add: mock_options_def)

lemma mock_prepare_two: "prepare mock_env_two mock_options = Inr mock_locals"
proof -
  have "prepare mock_env_two mock_options = prepare mock_env mock_options"
    unfolding mock_env_two_def by (rule prepare_env) simp_all
  then show ?thesis by (simp add: mock_prepare)
qed

lemma mock_prepare_none: "prepare mock_env_none mock_options = Inr mock_locals"
proof -
  have "prepare mock_env_none mock_options = prepare mock_env mock_options"
    unfolding mock_env_none_def by (rule prepare_env) simp_all
  then show ?thesis by (simp add: mock_prepare)
qed

lemma mock_get_signed_tx_two: "get_signed_tx mock_env_two (l_cat_ph mock_locals) 100 0 = Inr mock_tx"
  by (simp add: get_signed_tx_def get_client_def mock_env_two_def mock_env_def mock_wallet_def mock_tx_def)

lemma mock_get_signed_tx_none: "get_signed_tx mock_env_none (l_cat_ph mock_locals) 100 0 = Inr mock_tx"
  by (simp add: get_signed_tx_def get_client_def mock_env_none_def mock_env_def mock_wallet_def mock_tx_def)

lemma mock_candidates_two:
  "eve_candidates (l_cat_ph mock_locals) (additions mock_env_two (spend_bundle mock_tx)) =
     [mock_eve, \<lparr>parent_coin_info = [0xAA, 0xBB, 0xF4], puzzle_hash = l_cat_ph mock_locals, amount = 1\<rparr>]"
  by (simp add: eve_candidates_def mock_env_two_def mock_env_def mock_additions_def mock_tx_def
      mock_eve_def mock_name_def mock_funding_coin_def mock_locals_def)

lemma mock_candidates_none:
  "eve_candidates (l_cat_ph mock_locals) (additions mock_env_none (spend_bundle mock_tx)) = []"
  by (simp add: eve_candidates_def mock_env_none_def mock_env_def mock_tx_def
      mock_funding_coin_def mock_locals_def)

lemma mock_issue_two:
  "after_eve_coin mock_env_two mock_options mock_locals mock_tx mock_eve
     = Inr [Asset_ID_line [1, 1], Spend_Bundle_line ''0207'']"
  apply (simp add: after_eve_coin_def final_bundle_def spendable_eve_def show_bundle_def mock_amount_fee)
  apply (simp add: mock_env_two_def mock_env_def mock_locals_def mock_tx_def SpendBundle_aggregate_def
       AugSchemeMPL_aggregate_def G2Element_def hex_def hexdigit_def mock_tail_def)
  done

section \<open>Instances on the test double\<close>

text \<open>
  C1 as stated fails: when the funding transaction creates two coins at the wrapped puzzle
  hash, the command reports no error; it issues with the first of them.
\<close>

theorem two_eve_candidates_are_accepted:
  "prepare mock_env_two mock_options = Inr mock_locals
   \<and> get_signed_tx mock_env_two (l_cat_ph mock_locals) (opt_amount mock_options) (opt_fee mock_options)
       = Inr mock_tx
   \<and> length (eve_candidates (l_cat_ph mock_locals) (additions mock_env_two (spend_bundle mock_tx))) = 2
   \<and> cli mock_env_two mock_options = Inr [Asset_ID_line [1, 1], Spend_Bundle_line ''0207'']"
  by (simp add: cli_def mock_prepare_two mock_amount_fee mock_get_signed_tx_two mock_candidates_two
      eve_coin_def first_def mock_issue_two)

text \<open>The amended C1 on a run with two candidates and on a run with none.\<close>

theorem eve_coin_is_first_match_witness:
  "prepare mock_env_two mock_options = Inr mock_locals
   \<and> get_signed_tx mock_env_two (l_cat_ph mock_locals) (opt_amount mock_options) (opt_fee mock_options)
       = Inr mock_tx
   \<and> eve_candidates (l_cat_ph mock_locals) (additions mock_env_two (spend_bundle mock_tx)) =
       [mock_eve, \<lparr>parent_coin_info = [0xAA, 0xBB, 0xF4], puzzle_hash = l_cat_ph mock_locals, amount = 1\<rparr>]
   \<and> cli mock_env_two mock_options = after_eve_coin mock_env_two mock_options mock_locals mock_tx mock_eve
   \<and> prepare mock_env_none mock_options = Inr mock_locals
   \<and> get_signed_tx mock_env_none (l_cat_ph mock_locals) (opt_amount mock_options) (opt_fee mock_options)
       = Inr mock_tx
   \<and> eve_candidates (l_cat_ph mock_locals) (additions mock_env_none (spend_bundle mock_tx)) = []
   \<and> cli mock_env_none mock_options = Inl IndexError"
proof -
  have tx2: "get_signed_tx mock_env_two (l_cat_ph mock_locals) (opt_amount mock_options) (opt_fee mock_options)
       = Inr mock_tx"
    by (simp add: mock_amount_fee mock_get_signed_tx_two)
  have tx0: "get_signed_tx mock_env_none (l_cat_ph mock_locals) (opt_amount mock_options) (opt_fee mock_options)
       = Inr mock_tx"
    by (simp add: mock_amount_fee mock_get_signed_tx_none)
  from eve_coin_is_first_match [OF mock_prepare_two tx2] mock_candidates_two
  have first: "cli mock_env_two mock_options = after_eve_coin mock_env_two mock_options mock_locals mock_tx mock_eve"
    by blast
  from eve_coin_is_first_match [OF mock_prepare_none tx0] mock_candidates_none
  have none: "cli mock_env_none mock_options = Inl IndexError"
    by blast
  from mock_prepare_two tx2 mock_candidates_two first mock_prepare_none tx0 mock_candidates_none none
  show ?thesis by blast
qed

lemma mock_cli_other:
  "cli mock_env_other_wallet mock_options_other = Inr [Asset_ID_line [1, 1], Spend_Bundle_line ''0209'']"
  unfolding cli_def prepare_def mock_options_other_def mock_options_def
  apply (simp add: parse_program_def get_signed_tx_def get_client_def eve_coin_def eve_candidates_def
      first_def after_eve_coin_def final_bundle_def spendable_eve_def show_bundle_def
      construct_tail_def p2_puzzle_def G2Element_def Let_def clvm_list_def)
  apply (simp add: mock_env_other_wallet_def mock_env_def mock_additions_def mock_name_def
      after_eve_coin_def final_bundle_def spendable_eve_def show_bundle_def
      SpendBundle_aggregate_def AugSchemeMPL_aggregate_def G2Element_def hex_def hexdigit_def)
  done

lemma mock_cli_extras:
  "cli mock_env mock_options_extras = Inr [Asset_ID_line [2, 1, 1, 1, 1, 2], Spend_Bundle_line ''030c'']"
  unfolding cli_def
  apply (simp add: mock_prepare_extras)
  apply (simp add: mock_options_extras_def mock_options_def)
  apply (simp add: get_signed_tx_def get_client_def eve_coin_def eve_candidates_def
      first_def after_eve_coin_def final_bundle_def spendable_eve_def show_bundle_def)
  apply (simp add: mock_env_def mock_wallet_def mock_additions_def mock_name_def mock_funding_coin_def
      mock_locals_extras_def mock_curried_tail_def mock_tail_def clvm_list_def
      after_eve_coin_def final_bundle_def spendable_eve_def show_bundle_def
      SpendBundle_aggregate_def AugSchemeMPL_aggregate_def G2Element_def hex_def hexdigit_def)
  done

lemma mock_cli_extras_other:
  "cli mock_env_other_wallet mock_options_extras_other
     = Inr [Asset_ID_line [2, 1, 1, 1, 1, 2], Spend_Bundle_line ''030e'']"
  unfolding cli_def prepare_def mock_options_extras_other_def mock_options_extras_def mock_options_def
  apply (simp add: parse_program_def get_signed_tx_def get_client_def eve_coin_def eve_candidates_def
      first_def after_eve_coin_def final_bundle_def spendable_eve_def show_bundle_def
      construct_tail_def p2_puzzle_def G2Element_def Let_def clvm_list_def)
  apply (simp add: mock_env_other_wallet_def mock_env_def mock_additions_def mock_name_def
      after_eve_coin_def final_bundle_def spendable_eve_def show_bundle_def clvm_list_def
      SpendBundle_aggregate_def AugSchemeMPL_aggregate_def G2Element_def hex_def hexdigit_def)
  done

lemma mock_final: "final_bundle mock_env mock_locals (spend_bundle mock_tx) mock_eve = Inr mock_final_bundle"
  apply (simp add: final_bundle_def spendable_eve_def)
  apply (simp add: mock_env_def mock_locals_def mock_tx_def mock_final_bundle_def SpendBundle_aggregate_def
      AugSchemeMPL_aggregate_def G2Element_def)
  done

text \<open>C2 on two runs with the curry arguments \<^verbatim>\<open>1\<close> and \<^verbatim>\<open>2\<close> that differ in wallet,
  destination, amount, fee and solution: both print the hash of the curried TAIL, which
  is not the hash of the TAIL. Then on two such runs without curry arguments.\<close>

theorem asset_id_depends_only_on_curried_tail_witness:
  "cli mock_env mock_options_extras = Inr [Asset_ID_line [2, 1, 1, 1, 1, 2], Spend_Bundle_line ''030c'']
   \<and> \<not> opt_select_coin mock_options_extras
   \<and> cli mock_env_other_wallet mock_options_extras_other
       = Inr [Asset_ID_line [2, 1, 1, 1, 1, 2], Spend_Bundle_line ''030e'']
   \<and> \<not> opt_select_coin mock_options_extras_other
   \<and> opt_tail mock_options_extras_other = opt_tail mock_options_extras
   \<and> opt_curry mock_options_extras_other = opt_curry mock_options_extras
   \<and> opt_curry mock_options_extras = [''1'', ''2'']
   \<and> opt_send_to mock_options_extras_other \<noteq> opt_send_to mock_options_extras
   \<and> opt_amount mock_options_extras_other \<noteq> opt_amount mock_options_extras
   \<and> opt_fee mock_options_extras_other \<noteq> opt_fee mock_options_extras
   \<and> get_tree_hash mock_env (Program_curry mock_env mock_tail [Atom [1], Atom [2]]) = [2, 1, 1, 1, 1, 2]
   \<and> get_tree_hash mock_env mock_tail \<noteq> [2, 1, 1, 1, 1, 2]
   \<and> cli mock_env mock_options = Inr [Asset_ID_line [1, 1], Spend_Bundle_line ''0207'']
   \<and> \<not> opt_select_coin mock_options
   \<and> cli mock_env_other_wallet mock_options_other = Inr [Asset_ID_line [1, 1], Spend_Bundle_line ''0209'']
   \<and> \<not> opt_select_coin mock_options_other
   \<and> opt_tail mock_options_other = opt_tail mock_options
   \<and> opt_curry mock_options_other = opt_curry mock_options
   \<and> opt_curry mock_options = []
   \<and> get_tree_hash mock_env mock_tail = [1, 1]"
proof -
  have other: "mock_env_other_wallet =
      mock_env\<lparr>load_config := Inr (''wallet.example'', 9257),
              WalletRpcClient_create := (\<lambda>config. Inr (\<lambda>ph amt fee.
                Inr \<lparr>spend_bundle =
                      \<lparr>coin_spends = [\<lparr>coin = \<lparr>parent_coin_info = [0x11], puzzle_hash = [0x22], amount = 60\<rparr>,
                                       puzzle_reveal = Atom [1], solution = ConsBox (Atom ph) (Atom [])\<rparr>],
                       aggregated_signature = 9\<rparr>\<rparr>))\<rparr>"
    by (simp add: mock_env_other_wallet_def)
  \<comment> \<open>the runs with curry arguments\<close>
  have e2: "\<not> opt_select_coin mock_options_extras"
    by (simp add: mock_options_extras_def mock_options_def)
  have e4: "\<not> opt_select_coin mock_options_extras_other"
    by (simp add: mock_options_extras_other_def mock_options_extras_def mock_options_def)
  have e5: "opt_tail mock_options_extras_other = opt_tail mock_options_extras"
    by (simp add: mock_options_extras_other_def)
  have e6: "opt_curry mock_options_extras_other = opt_curry mock_options_extras"
    by (simp add: mock_options_extras_other_def)
  have ec: "opt_curry mock_options_extras = [''1'', ''2'']"
    by (simp add: mock_options_extras_def)
  have et: "parse_program mock_env (Str (opt_tail mock_options_extras)) [] = Inr mock_tail"
    using mock_parse_tail by (simp add: mock_options_extras_def mock_options_def)
  have ediff: "opt_send_to mock_options_extras_other \<noteq> opt_send_to mock_options_extras"
    "opt_amount mock_options_extras_other \<noteq> opt_amount mock_options_extras"
    "opt_fee mock_options_extras_other \<noteq> opt_fee mock_options_extras"
    by (simp_all add: mock_options_extras_other_def mock_options_extras_def mock_options_def)
  from asset_id_depends_only_on_curried_tail
         [OF mock_cli_extras e2 mock_cli_extras_other [unfolded other] e4 e5 e6]
  obtain tail curried_args where
    "parse_program mock_env (Str (opt_tail mock_options_extras)) [] = Inr tail"
    and args: "list_all2 (\<lambda>arg p. assemble mock_env arg = Inr p) (opt_curry mock_options_extras) curried_args"
    and "get_tree_hash mock_env
           (if opt_curry mock_options_extras = [] then tail else Program_curry mock_env tail curried_args)
         = [2, 1, 1, 1, 1, 2]"
    by auto
  with et ec have hash: "get_tree_hash mock_env (Program_curry mock_env mock_tail curried_args) = [2, 1, 1, 1, 1, 2]"
    by simp
  from args have "curried_args = [Atom [1], Atom [2]]"
    unfolding ec by (auto simp: list_all2_Cons1 mock_env_def)
  with hash have curried:
    "get_tree_hash mock_env (Program_curry mock_env mock_tail [Atom [1], Atom [2]]) = [2, 1, 1, 1, 1, 2]"
    by simp
  have plain: "get_tree_hash mock_env mock_tail \<noteq> [2, 1, 1, 1, 1, 2]"
    by (simp add: mock_env_def mock_tail_def)
  \<comment> \<open>the runs without curry arguments\<close>
  have h2: "\<not> opt_select_coin mock_options" by (simp add: mock_options_def)
  have h4: "\<not> opt_select_coin mock_options_other" by (simp add: mock_options_other_def mock_options_def)
  have h5: "opt_tail mock_options_other = opt_tail mock_options" by (simp add: mock_options_other_def)
  have h6: "opt_curry mock_options_other = opt_curry mock_options" by (simp add: mock_options_other_def)
  have hc: "opt_curry mock_options = []" by (simp add: mock_options_def)
  have ht: "parse_program mock_env (Str (opt_tail mock_options)) [] = Inr mock_tail"
    using mock_parse_tail by (simp add: mock_options_def)
  from asset_id_depends_only_on_curried_tail
         [OF mock_cli h2 mock_cli_other [unfolded other] h4 h5 h6]
  obtain tail0 curried_args0 where
    "parse_program mock_env (Str (opt_tail mock_options)) [] = Inr tail0"
    and "get_tree_hash mock_env
           (if opt_curry mock_options = [] then tail0 else Program_curry mock_env tail0 curried_args0)
         = [1, 1]"
    by auto
  with ht hc have uncurried: "get_tree_hash mock_env mock_tail = [1, 1]"
    by simp
  from mock_cli_extras e2 mock_cli_extras_other e4 e5 e6 ec ediff curried plain
    mock_cli h2 mock_cli_other h4 h5 h6 hc uncurried
  show ?thesis by (intro conjI)
qed

text \<open>C4 on a run with two extra signatures and one extra spend bundle.\<close>

theorem final_bundle_aggregates_four_operands_witness:
  "cli mock_env mock_options_extras = Inr [Asset_ID_line [2, 1, 1, 1, 1, 2], Spend_Bundle_line ''030c'']
   \<and> \<not> opt_select_coin mock_options_extras
   \<and> (\<exists>l signed_tx eve eve_spend extra_bundles extra_sigs fb shown.
      prepare mock_env mock_options_extras = Inr l
    \<and> get_signed_tx mock_env (l_cat_ph l) (opt_amount mock_options_extras) (opt_fee mock_options_extras)
        = Inr signed_tx
    \<and> eve_coin (l_cat_ph l) (additions mock_env (spend_bundle signed_tx)) = Inr eve
    \<and> unsigned_spend_bundle_for_spendable_ccs mock_env (CC_MOD mock_env) [spendable_eve mock_env l eve]
        = Inr eve_spend
    \<and> list_all2 (\<lambda>s b. bindE (hexstr_to_bytes mock_env s) (SpendBundle_from_bytes mock_env) = Inr b)
         (opt_spend mock_options_extras) extra_bundles
    \<and> list_all2 (\<lambda>s g. bindE (hexstr_to_bytes mock_env s) (G2Element_from_bytes mock_env) = Inr g)
         (opt_signature mock_options_extras) extra_sigs
    \<and> fb = SpendBundle_aggregate
             [spend_bundle signed_tx, eve_spend,
              foldl (\<lambda>a b. SpendBundle_aggregate [a, b])
                \<lparr>coin_spends = [], aggregated_signature = G2Element\<rparr> extra_bundles,
              \<lparr>coin_spends = [],
               aggregated_signature = foldl (\<lambda>a g. AugSchemeMPL_aggregate [a, g]) G2Element extra_sigs\<rparr>]
    \<and> coin_spends fb =
        coin_spends (spend_bundle signed_tx) @ coin_spends eve_spend @ concat (map coin_spends extra_bundles)
    \<and> aggregated_signature fb =
        aggregated_signature (spend_bundle signed_tx) + aggregated_signature eve_spend
        + sum_list (map aggregated_signature extra_bundles) + sum_list extra_sigs
    \<and> show_bundle mock_env (opt_as_bytes mock_options_extras) fb = Inr shown
    \<and> [Asset_ID_line [2, 1, 1, 1, 1, 2], Spend_Bundle_line ''030c'']
        = [Asset_ID_line (get_tree_hash mock_env (l_curried_tail l)), Spend_Bundle_line shown])"
proof -
  have h2: "\<not> opt_select_coin mock_options_extras"
    by (simp add: mock_options_extras_def mock_options_def)
  from mock_cli_extras h2 final_bundle_aggregates_four_operands [OF mock_cli_extras h2]
  show ?thesis by (intro conjI)
qed

text \<open>C6 on a run without curry arguments and on a run with two.\<close>

theorem curried_tail_identity_and_order_witness:
  "prepare mock_env mock_options = Inr mock_locals
   \<and> opt_curry mock_options = []
   \<and> parse_program mock_env (Str (opt_tail mock_options)) [] = Inr (l_curried_tail mock_locals)
   \<and> prepare mock_env mock_options_extras = Inr mock_locals_extras
   \<and> opt_curry mock_options_extras = [''1'', ''2'']
   \<and> l_curried_tail mock_locals_extras = Program_curry mock_env mock_tail [Atom [1], Atom [2]]"
proof -
  have c0: "opt_curry mock_options = []" by (simp add: mock_options_def)
  have c2: "opt_curry mock_options_extras = [''1'', ''2'']"
    by (simp add: mock_options_extras_def)
  have t2: "parse_program mock_env (Str (opt_tail mock_options_extras)) [] = Inr mock_tail"
    using mock_parse_tail by (simp add: mock_options_extras_def mock_options_def)
  from curried_tail_identity_and_order [OF mock_prepare] c0
  have first: "parse_program mock_env (Str (opt_tail mock_options)) [] = Inr (l_curried_tail mock_locals)"
    by auto
  from curried_tail_identity_and_order [OF mock_prepare_extras]
  obtain tail curried_args where
    "parse_program mock_env (Str (opt_tail mock_options_extras)) [] = Inr tail"
    and args: "list_all2 (\<lambda>arg p. assemble mock_env arg = Inr p) (opt_curry mock_options_extras) curried_args"
    and "opt_curry mock_options_extras \<noteq> [] \<longrightarrow>
           l_curried_tail mock_locals_extras = Program_curry mock_env tail curried_args"
    by blast
  with t2 c2 have ct: "l_curried_tail mock_locals_extras = Program_curry mock_env mock_tail curried_args"
    by simp
  from args have "curried_args = [Atom [1], Atom [2]]"
    unfolding c2 by (auto simp: list_all2_Cons1 mock_env_def)
  with ct have "l_curried_tail mock_locals_extras = Program_curry mock_env mock_tail [Atom [1], Atom [2]]"
    by simp
  with mock_prepare c0 first mock_prepare_extras c2 show ?thesis by blast
qed

text \<open>C7 on the two orders of two extra signatures.\<close>

theorem extra_signatures_fold_and_permutation_witness:
  "aggregate_signatures mock_env G2Element [''01'', ''02''] = Inr 3
   \<and> mset [''02'', ''01''] = mset [''01'', ''02'']
   \<and> aggregate_signatures mock_env G2Element [''02'', ''01''] = Inr 3
   \<and> opt_signature mock_options_extras = [''01'', ''02'']
   \<and> prepare mock_env mock_options_extras = Inr mock_locals_extras
   \<and> l_aggregated_signature mock_locals_extras = 3
   \<and> prepare mock_env (mock_options_extras\<lparr>opt_signature := [''02'', ''01'']\<rparr>) = Inr mock_locals_extras"
proof -
  have run: "aggregate_signatures mock_env G2Element [''01'', ''02''] = Inr 3"
    by (simp add: mock_env_def G2Element_def)
  have p: "mset [''02'', ''01''] = mset [''01'', ''02'']"
    by (simp add: add_mset_commute)
  have s: "opt_signature mock_options_extras = [''01'', ''02'']"
    by (simp add: mock_options_extras_def)
  from extra_signatures_fold_and_permutation [OF run p] s mock_prepare_extras
  have "aggregate_signatures mock_env G2Element [''02'', ''01''] = Inr 3"
    and "l_aggregated_signature mock_locals_extras = 3"
    and "prepare mock_env (mock_options_extras\<lparr>opt_signature := [''02'', ''01'']\<rparr>) = Inr mock_locals_extras"
    by blast+
  with run p s mock_prepare_extras show ?thesis by blast
qed

text \<open>C8 on a select-coin run, also with collaborators that would fail if they were called.\<close>

theorem select_coin_exit_witness:
  "opt_select_coin (mock_options\<lparr>opt_select_coin := True\<rparr>)
   \<and> prepare mock_env (mock_options\<lparr>opt_select_coin := True\<rparr>) = Inr mock_locals
   \<and> get_signed_tx mock_env (l_cat_ph mock_locals) (opt_amount (mock_options\<lparr>opt_select_coin := True\<rparr>))
         (opt_fee (mock_options\<lparr>opt_select_coin := True\<rparr>)) = Inr mock_tx
   \<and> eve_coin (l_cat_ph mock_locals) (additions mock_env (spend_bundle mock_tx)) = Inr mock_eve
   \<and> cli mock_env (mock_options\<lparr>opt_select_coin := True\<rparr>)
       = Inr [Coin_json mock_funding_coin, Name_line [0xAA, 0xBB, 0xF4]]
   \<and> cli (mock_env\<lparr>unsigned_spend_bundle_for_spendable_ccs := (\<lambda>m ccs. Inl (CollaboratorError ''not called'')),
                    SpendBundle_bytes := (\<lambda>b. []),
                    json_dumps := (\<lambda>b. Inl (CollaboratorError ''not called''))\<rparr>)
          (mock_options\<lparr>opt_select_coin := True\<rparr>)
       = Inr [Coin_json mock_funding_coin, Name_line [0xAA, 0xBB, 0xF4]]"
proof -
  let ?opts = "mock_options\<lparr>opt_select_coin := True\<rparr>"
  have h1: "opt_select_coin ?opts" by simp
  have h2: "prepare mock_env ?opts = Inr mock_locals"
    by (simp add: prepare_select_coin mock_prepare)
  have h3: "get_signed_tx mock_env (l_cat_ph mock_locals) (opt_amount ?opts) (opt_fee ?opts) = Inr mock_tx"
    by (simp add: mock_amount_fee mock_get_signed_tx)
  have found: "filter (\<lambda>c. coin_name mock_env c = parent_coin_info mock_eve)
                 (removals mock_env (spend_bundle mock_tx)) = [mock_funding_coin]"
    by (simp add: mock_env_def mock_tx_def mock_eve_def mock_name_def mock_funding_coin_def)
  have name: "coin_name mock_env mock_funding_coin = [0xAA, 0xBB, 0xF4]"
    by (simp add: mock_env_def mock_name_def mock_funding_coin_def)
  from select_coin_exit [OF h1 h2 h3 mock_eve_coin,
      where build = "\<lambda>m ccs. Inl (CollaboratorError ''not called'')" and serialise = "\<lambda>b. []"
        and dumps = "\<lambda>b. Inl (CollaboratorError ''not called'')"]
  have "cli mock_env ?opts = Inr [Coin_json mock_funding_coin, Name_line [0xAA, 0xBB, 0xF4]]
      \<and> cli (mock_env\<lparr>unsigned_spend_bundle_for_spendable_ccs := (\<lambda>m ccs. Inl (CollaboratorError ''not called'')),
                    SpendBundle_bytes := (\<lambda>b. []),
                    json_dumps := (\<lambda>b. Inl (CollaboratorError ''not called''))\<rparr>) ?opts
       = Inr [Coin_json mock_funding_coin, Name_line [0xAA, 0xBB, 0xF4]]"
    by (simp add: found name)
  with h1 h2 h3 mock_eve_coin show ?thesis by blast
qed

text \<open>C10 on a run without extra signatures and the same run with two.\<close>

theorem extra_signatures_leave_coin_spends_witness:
  "prepare mock_env mock_options = Inr mock_locals
   \<and> prepare mock_env (mock_options\<lparr>opt_signature := [''01'', ''02'']\<rparr>)
       = Inr (mock_locals\<lparr>l_aggregated_signature := 3\<rparr>)
   \<and> final_bundle mock_env mock_locals (spend_bundle mock_tx) mock_eve = Inr mock_final_bundle
   \<and> final_bundle mock_env (mock_locals\<lparr>l_aggregated_signature := 3\<rparr>) (spend_bundle mock_tx) mock_eve
       = Inr (mock_final_bundle\<lparr>aggregated_signature := 10\<rparr>)
   \<and> coin_spends (mock_final_bundle\<lparr>aggregated_signature := 10\<rparr>) = coin_spends mock_final_bundle"
proof -
  from extra_signatures_leave_coin_spends [OF mock_prepare mock_prepare_signed mock_final]
  have "final_bundle mock_env (mock_locals\<lparr>l_aggregated_signature := 3\<rparr>) (spend_bundle mock_tx) mock_eve
       = Inr (mock_final_bundle\<lparr>aggregated_signature := 10\<rparr>)"
    by (auto simp: mock_final_bundle_def mock_locals_def)
  with mock_prepare mock_prepare_signed mock_final show ?thesis by simp
qed

end
